theory Spec2Isabelle
  imports Main "HOL-Library.Sublist"
begin

section \<open>The Qt API selector of IPython (IPython/external/qt.py)\<close>

text \<open>
  The module is a block of top-level statements, run once when it is imported. It reads
  one environment variable, imports one of two third-party binding libraries and, for
  PyQt4, configures sip and aliases two attributes. The embedding below makes every
  effect of those statements explicit: the process environment, the modules the
  interpreter can find, the attributes of module objects, the API versions registered
  with sip, the namespace of the module being executed and a chronological log of what
  was done. Every statement is a function from the state to an outcome and a new state;
  an exception is the outcome \<open>Inl\<close>, and the state reached when it was raised is kept,
  as Python undoes nothing.

  Strings are byte strings (\<open>char list\<close>), the \<open>str\<close> of the Python 2 interpreters the
  module was written for.
\<close>

subsection \<open>Values, exceptions, events\<close>

datatype pyobj = Str string | Module string | Obj nat

datatype pyerror =
    RuntimeError string
  | ImportError string
  | ValueError string
  | AttributeError string
  | NameError string
  | TypeError string

datatype event =
    Import string
  | EnvGet string
  | Store string
  | SetApi string int
  | SetAttr string string

text \<open>
  The state of a run. \<open>environ\<close> is \<open>os.environ\<close>; \<open>installed\<close> tells which
  third-party modules the interpreter finds; \<open>attrs m\<close> holds the attributes of the
  module object named \<open>m\<close>; \<open>sip_api\<close> holds the API versions registered with sip;
  \<open>globals\<close> is the namespace of the module being executed; \<open>trace\<close> is the log, the
  oldest event first.
\<close>

record world =
  environ :: "string \<rightharpoonup> string"
  installed :: "string \<Rightarrow> bool"
  attrs :: "string \<Rightarrow> string \<rightharpoonup> pyobj"
  sip_api :: "string \<rightharpoonup> int"
  globals :: "string \<rightharpoonup> pyobj"
  trace :: "event list"

type_synonym 'a prog = "world \<Rightarrow> (pyerror + 'a) \<times> world"

text \<open>Sequencing of statements: an exception ends the block.\<close>

definition seq :: "'a prog \<Rightarrow> ('a \<Rightarrow> 'b prog) \<Rightarrow> 'b prog" where
  "seq m f w = (case m w of (Inl e, w') \<Rightarrow> (Inl e, w') | (Inr x, w') \<Rightarrow> f x w')"

definition raise :: "pyerror \<Rightarrow> 'a prog" where
  "raise e w = (Inl e, w)"

definition log :: "event \<Rightarrow> world \<Rightarrow> world" where
  "log e w = w\<lparr>trace := trace w @ [e]\<rparr>"

subsection \<open>The string operations the module uses\<close>

text \<open>
  \<open>repr\<close> of a byte string, as \<open>%r\<close> applies it: the string between single quotes
  (double quotes when it holds a single quote and no double quote), with the quote
  character and the backslash escaped by a backslash, tab, newline and carriage return
  written \<open>\t\<close>, \<open>\n\<close>, \<open>\r\<close>, and every other byte below 0x20 or from 0x7f on
  written \<open>\xNN\<close> in lowercase hexadecimal.
\<close>

definition hex_digit :: "nat \<Rightarrow> char" where
  "hex_digit n = ''0123456789abcdef'' ! (n mod 16)"

definition repr_quote :: "string \<Rightarrow> char" where
  "repr_quote s = (if CHR 0x27 \<in> set s \<and> CHR 0x22 \<notin> set s then CHR 0x22 else CHR 0x27)"

definition repr_char :: "char \<Rightarrow> char \<Rightarrow> string" where
  "repr_char q c =
     (if c = q \<or> c = CHR 0x5C then [CHR 0x5C, c]
      else if c = CHR 0x09 then [CHR 0x5C, CHR ''t'']
      else if c = CHR 0x0A then [CHR 0x5C, CHR ''n'']
      else if c = CHR 0x0D then [CHR 0x5C, CHR ''r'']
      else if (of_char c :: nat) < 32 \<or> 127 \<le> (of_char c :: nat)
        then [CHR 0x5C, CHR ''x'', hex_digit (of_char c div 16), hex_digit (of_char c mod 16)]
      else [c])"

definition py_repr :: "string \<Rightarrow> string" where
  "py_repr s = (let q = repr_quote s in q # concat (map (repr_char q) s) @ [q])"

text \<open>
  The operator \<open>format % args\<close> on the fragment the module uses: literal text,
  \<open>%%\<close> and the conversion \<open>%r\<close>, each \<open>%r\<close> consuming the next argument. Too few
  or too many arguments raise TypeError, as in Python. No other conversion occurs in the
  module; the model stops at one with ValueError.
\<close>

fun percent_format :: "string \<Rightarrow> string list \<Rightarrow> pyerror + string" where
  "percent_format [] [] = Inr []"
| "percent_format [] (a # args) =
     Inl (TypeError ''not all arguments converted during string formatting'')"
| "percent_format [c] args =
     (if c = CHR ''%'' then Inl (ValueError ''incomplete format'')
      else map_sum id ((#) c) (percent_format [] args))"
| "percent_format (c # d # fmt) args =
     (if c \<noteq> CHR ''%'' then map_sum id ((#) c) (percent_format (d # fmt) args)
      else if d = CHR ''%'' then map_sum id ((#) c) (percent_format fmt args)
      else if d = CHR ''r'' then
        (case args of
           [] \<Rightarrow> Inl (TypeError ''not enough arguments for format string'')
         | a # rest \<Rightarrow> map_sum id ((@) (py_repr a)) (percent_format fmt rest))
      else Inl (ValueError ''unsupported format character''))"

subsection \<open>The statements the module uses\<close>

text \<open>\<open>NAME = value\<close>.\<close>

definition store_name :: "string \<Rightarrow> pyobj \<Rightarrow> unit prog" where
  "store_name n v w = (Inr (), log (Store n) (w\<lparr>globals := (globals w)(n \<mapsto> v)\<rparr>))"

text \<open>
  \<open>import os\<close>. The module \<open>os\<close> belongs to the standard library that every
  interpreter carries, so this import cannot fail; its \<open>environ\<close> is the process
  environment.
\<close>

definition import_os :: "unit prog" where
  "import_os w = store_name ''os'' (Module ''os'') (log (Import ''os'') w)"

text \<open>\<open>os.environ.get(key, default)\<close>: the default is used only for a missing key.\<close>

definition environ_get :: "string \<Rightarrow> string \<Rightarrow> string prog" where
  "environ_get key dflt w =
     (Inr (case environ w key of None \<Rightarrow> dflt | Some v \<Rightarrow> v), log (EnvGet key) w)"

text \<open>
  \<open>import m\<close> for a third-party module: ImportError unless the interpreter finds it.
\<close>

definition import_module :: "string \<Rightarrow> unit prog" where
  "import_module m w =
     (if installed w m then store_name m (Module m) (log (Import m) w)
      else (Inl (ImportError (''No module named '' @ m)), w))"

text \<open>
  \<open>from pkg import n1, n2, ...\<close> where the names are submodules of the package: the
  package is imported, then every submodule that is found is loaded (a missing one is
  passed over at this point), then the names are bound in order, and the first one that
  was not found raises ImportError.
\<close>

definition submodule :: "string \<Rightarrow> string \<Rightarrow> string" where
  "submodule pkg n = pkg @ ''.'' @ n"

fun load_submodules :: "string \<Rightarrow> string list \<Rightarrow> world \<Rightarrow> world" where
  "load_submodules pkg [] w = w"
| "load_submodules pkg (n # ns) w =
     load_submodules pkg ns
       (if installed w (submodule pkg n) then log (Import (submodule pkg n)) w else w)"

fun import_names :: "string \<Rightarrow> string list \<Rightarrow> unit prog" where
  "import_names pkg [] w = (Inr (), w)"
| "import_names pkg (n # ns) w =
     (if installed w (submodule pkg n)
      then seq (store_name n (Module (submodule pkg n))) (\<lambda>_. import_names pkg ns) w
      else (Inl (ImportError (''cannot import name '' @ n)), w))"

definition from_import :: "string \<Rightarrow> string list \<Rightarrow> unit prog" where
  "from_import pkg names w =
     (if installed w pkg
      then import_names pkg names (load_submodules pkg names (log (Import pkg) w))
      else (Inl (ImportError (''No module named '' @ pkg)), w))"

text \<open>
  \<open>sip.setapi(name, version)\<close>, by the contract sip documents: the version of an API
  is registered, and ValueError is raised when a different version of that API has been
  registered before.
\<close>

definition sip_setapi :: "string \<Rightarrow> int \<Rightarrow> unit prog" where
  "sip_setapi name version w =
     (case globals w ''sip'' of
        None \<Rightarrow> (Inl (NameError ''sip''), w)
      | Some _ \<Rightarrow>
          (case sip_api w name of
             None \<Rightarrow> (Inr (), log (SetApi name version) (w\<lparr>sip_api := (sip_api w)(name \<mapsto> version)\<rparr>))
           | Some v \<Rightarrow>
               if v = version then (Inr (), log (SetApi name version) w)
               else (Inl (ValueError (''API '' @ py_repr name @ '' has already been set'')), w)))"

text \<open>\<open>NAME.attr\<close> read and \<open>NAME.attr = value\<close>, for a name bound to a module.\<close>

definition load_attr :: "string \<Rightarrow> string \<Rightarrow> pyobj prog" where
  "load_attr n a w =
     (case globals w n of
        None \<Rightarrow> (Inl (NameError n), w)
      | Some (Module m) \<Rightarrow>
          (case attrs w m a of
             None \<Rightarrow> (Inl (AttributeError a), w)
           | Some v \<Rightarrow> (Inr v, w))
      | Some _ \<Rightarrow> (Inl (AttributeError a), w))"

definition store_attr :: "string \<Rightarrow> string \<Rightarrow> pyobj \<Rightarrow> unit prog" where
  "store_attr n a v w =
     (case globals w n of
        None \<Rightarrow> (Inl (NameError n), w)
      | Some (Module m) \<Rightarrow>
          (Inr (), log (SetAttr m a) (w\<lparr>attrs := (attrs w)(m := (attrs w m)(a \<mapsto> v))\<rparr>))
      | Some _ \<Rightarrow> (Inl (AttributeError a), w))"

subsection \<open>The module\<close>

definition QT_API_PYQT :: string where
  "QT_API_PYQT = ''pyqt''"

definition QT_API_PYSIDE :: string where
  "QT_API_PYSIDE = ''pyside''"

definition invalid_api :: "string \<Rightarrow> unit prog" where
  "invalid_api QT_API =
     (case percent_format ''Invalid Qt API %r, valid values are: %r or %r''
             [QT_API, QT_API_PYQT, QT_API_PYSIDE] of
        Inl e \<Rightarrow> raise e
      | Inr msg \<Rightarrow> raise (RuntimeError msg))"

definition pyqt_branch :: "unit prog" where
  "pyqt_branch =
     seq (import_module ''sip'') (\<lambda>_.
     seq (sip_setapi ''QString'' 2) (\<lambda>_.
     seq (sip_setapi ''QVariant'' 2) (\<lambda>_.
     seq (from_import ''PyQt4'' [''QtCore'', ''QtGui'', ''QtSvg'']) (\<lambda>_.
     seq (load_attr ''QtCore'' ''pyqtSignal'') (\<lambda>sig.
     seq (store_attr ''QtCore'' ''Signal'' sig) (\<lambda>_.
     seq (load_attr ''QtCore'' ''pyqtSlot'') (\<lambda>slot.
     store_attr ''QtCore'' ''Slot'' slot)))))))"

definition pyside_branch :: "unit prog" where
  "pyside_branch = from_import ''PySide'' [''QtCore'', ''QtGui'', ''QtSvg'']"

definition qt_module :: "unit prog" where
  "qt_module =
     seq import_os (\<lambda>_.
     seq (store_name ''QT_API_PYQT'' (Str QT_API_PYQT)) (\<lambda>_.
     seq (store_name ''QT_API_PYSIDE'' (Str QT_API_PYSIDE)) (\<lambda>_.
     seq (environ_get ''QT_API'' QT_API_PYQT) (\<lambda>QT_API.
     seq (store_name ''QT_API'' (Str QT_API)) (\<lambda>_.
     if QT_API = QT_API_PYQT then pyqt_branch
     else if QT_API = QT_API_PYSIDE then pyside_branch
     else invalid_api QT_API)))))"

text \<open>
  Importing the module in a process: its body runs in a fresh namespace, and the log
  starts empty.
\<close>

definition import_qt :: "world \<Rightarrow> (pyerror + unit) \<times> world" where
  "import_qt w = qt_module (w\<lparr>globals := Map.empty, trace := []\<rparr>)"

subsection \<open>Auxiliary notions for the theorems\<close>

text \<open>The value the module resolves: the expression \<open>os.environ.get('QT_API', QT_API_PYQT)\<close>.\<close>

definition selected :: "world \<Rightarrow> string" where
  "selected w = (case environ w ''QT_API'' of None \<Rightarrow> QT_API_PYQT | Some v \<Rightarrow> v)"

text \<open>The state in which the module reaches its \<open>if\<close> statement.\<close>

definition started :: "world \<Rightarrow> world" where
  "started w =
     w\<lparr>globals := [''os'' \<mapsto> Module ''os'', ''QT_API_PYQT'' \<mapsto> Str ''pyqt'',
                   ''QT_API_PYSIDE'' \<mapsto> Str ''pyside'', ''QT_API'' \<mapsto> Str (selected w)],
       trace := [Import ''os'', Store ''os'', Store ''QT_API_PYQT'', Store ''QT_API_PYSIDE'',
                 EnvGet ''QT_API'', Store ''QT_API'']\<rparr>"

text \<open>A statement that leaves a component of the state as it was, whatever its outcome.\<close>

definition keeps :: "(world \<Rightarrow> 'b) \<Rightarrow> 'a prog \<Rightarrow> bool" where
  "keeps g p = (\<forall>s. g (snd (p s)) = g s)"

text \<open>A statement that only appends to the log, and only events of one kind.\<close>

definition only_logs :: "(event \<Rightarrow> bool) \<Rightarrow> 'a prog \<Rightarrow> bool" where
  "only_logs A p = (\<forall>s. \<exists>es. trace (snd (p s)) = trace s @ es \<and> list_all A es)"

text \<open>
  In a log, \<open>a\<close> comes before \<open>b\<close>: if \<open>b\<close> occurs at all, \<open>a\<close> occurs before its
  first occurrence.
\<close>

definition before :: "event \<Rightarrow> event \<Rightarrow> event list \<Rightarrow> bool" where
  "before a b t = (b \<in> set t \<longrightarrow> a \<in> set (takeWhile (\<lambda>e. e \<noteq> b) t))"

text \<open>
  Strings that \<open>repr\<close> leaves as they are between the quotes: printable ASCII without
  a backslash, and not both kinds of quote.
\<close>

definition plain_text :: "string \<Rightarrow> bool" where
  "plain_text v =
     ((\<forall>c \<in> set v. 32 \<le> (of_char c :: nat) \<and> (of_char c :: nat) < 127 \<and> c \<noteq> CHR 0x5C)
      \<and> \<not> (CHR 0x27 \<in> set v \<and> CHR 0x22 \<in> set v))"

text \<open>The log entries that are reads of the environment.\<close>

fun is_env_read :: "event \<Rightarrow> bool" where
  "is_env_read (EnvGet k) = True"
| "is_env_read e = False"

text \<open>A later read of a name of the module by its consumers, as in \<open>qt.QT_API\<close>.\<close>

definition read_global :: "string \<Rightarrow> pyobj prog" where
  "read_global n w =
     (case globals w n of None \<Rightarrow> (Inl (AttributeError n), w) | Some v \<Rightarrow> (Inr v, w))"

text \<open>The statements of the PyQt branch that follow the two calls of \<open>setapi\<close>.\<close>

definition pyqt_imports :: "unit prog" where
  "pyqt_imports =
     seq (from_import ''PyQt4'' [''QtCore'', ''QtGui'', ''QtSvg'']) (\<lambda>_.
     seq (load_attr ''QtCore'' ''pyqtSignal'') (\<lambda>sig.
     seq (store_attr ''QtCore'' ''Signal'' sig) (\<lambda>_.
     seq (load_attr ''QtCore'' ''pyqtSlot'') (\<lambda>slot.
     store_attr ''QtCore'' ''Slot'' slot))))"

text \<open>The state in which a run of the PyQt branch ends when every statement succeeds.\<close>

definition pyqt_done :: "world \<Rightarrow> pyobj \<Rightarrow> pyobj \<Rightarrow> world" where
  "pyqt_done w sig slot =
     w\<lparr>globals := [''os'' \<mapsto> Module ''os'', ''QT_API_PYQT'' \<mapsto> Str ''pyqt'',
                   ''QT_API_PYSIDE'' \<mapsto> Str ''pyside'', ''QT_API'' \<mapsto> Str ''pyqt'',
                   ''sip'' \<mapsto> Module ''sip'', ''QtCore'' \<mapsto> Module ''PyQt4.QtCore'',
                   ''QtGui'' \<mapsto> Module ''PyQt4.QtGui'', ''QtSvg'' \<mapsto> Module ''PyQt4.QtSvg''],
       sip_api := (sip_api w)(''QString'' \<mapsto> 2, ''QVariant'' \<mapsto> 2),
       attrs := (attrs w)(''PyQt4.QtCore'' :=
                   (attrs w ''PyQt4.QtCore'')(''Signal'' \<mapsto> sig, ''Slot'' \<mapsto> slot)),
       trace := [Import ''os'', Store ''os'', Store ''QT_API_PYQT'', Store ''QT_API_PYSIDE'',
                 EnvGet ''QT_API'', Store ''QT_API'', Import ''sip'', Store ''sip'',
                 SetApi ''QString'' 2, SetApi ''QVariant'' 2,
                 Import ''PyQt4'', Import ''PyQt4.QtCore'', Import ''PyQt4.QtGui'',
                 Import ''PyQt4.QtSvg'', Store ''QtCore'', Store ''QtGui'', Store ''QtSvg'',
                 SetAttr ''PyQt4.QtCore'' ''Signal'', SetAttr ''PyQt4.QtCore'' ''Slot'']\<rparr>"

text \<open>The state of the PyQt branch after \<open>import sip\<close> and the two calls of \<open>setapi\<close>.\<close>

definition switched :: "world \<Rightarrow> world" where
  "switched w =
     (started w)\<lparr>globals := (globals (started w))(''sip'' \<mapsto> Module ''sip''),
       sip_api := (sip_api w)(''QString'' \<mapsto> 2, ''QVariant'' \<mapsto> 2),
       trace := trace (started w) @ [Import ''sip'', Store ''sip'', SetApi ''QString'' 2,
                  SetApi ''QVariant'' 2]\<rparr>"

text \<open>
  The host lets both calls of \<open>setapi\<close> succeed: sip can be imported, and no other
  version of either API has been registered.
\<close>

definition sip_ready :: "world \<Rightarrow> bool" where
  "sip_ready w =
     (installed w ''sip''
      \<and> (sip_api w ''QString'' = None \<or> sip_api w ''QString'' = Some 2)
      \<and> (sip_api w ''QVariant'' = None \<or> sip_api w ''QVariant'' = Some 2))"

subsection \<open>Hosts for the concrete runs\<close>

text \<open>A host with neither binding, one with sip and PyQt4, one with PySide.\<close>

definition bare_host :: world where
  "bare_host =
     \<lparr>environ = Map.empty, installed = (\<lambda>m. False), attrs = (\<lambda>m. Map.empty),
      sip_api = Map.empty, globals = Map.empty, trace = []\<rparr>"

definition pyqt_host :: world where
  "pyqt_host =
     \<lparr>environ = Map.empty,
      installed = (\<lambda>m. m = ''sip'' \<or> m = ''PyQt4'' \<or> m = ''PyQt4.QtCore''
                      \<or> m = ''PyQt4.QtGui'' \<or> m = ''PyQt4.QtSvg''),
      attrs = (\<lambda>m. if m = ''PyQt4.QtCore''
                    then [''pyqtSignal'' \<mapsto> Obj 1, ''pyqtSlot'' \<mapsto> Obj 2] else Map.empty),
      sip_api = Map.empty, globals = Map.empty, trace = []\<rparr>"

definition pyside_host :: world where
  "pyside_host =
     \<lparr>environ = [''QT_API'' \<mapsto> ''pyside''],
      installed = (\<lambda>m. m = ''PySide'' \<or> m = ''PySide.QtCore''
                      \<or> m = ''PySide.QtGui'' \<or> m = ''PySide.QtSvg''),
      attrs = (\<lambda>m. if m = ''PySide.QtCore''
                    then [''Signal'' \<mapsto> Obj 1, ''Slot'' \<mapsto> Obj 2] else Map.empty),
      sip_api = Map.empty, globals = Map.empty, trace = []\<rparr>"

section \<open>The run up to the branch, and the error message\<close>

lemma import_qt_eq:
  "import_qt w =
     (if selected w = ''pyqt'' then pyqt_branch (started w)
      else if selected w = ''pyside'' then pyside_branch (started w)
      else invalid_api (selected w) (started w))"
  by (simp add: import_qt_def qt_module_def seq_def import_os_def store_name_def log_def
      environ_get_def selected_def started_def QT_API_PYQT_def QT_API_PYSIDE_def
      split: option.split)

lemma repr_pyqt: "py_repr ''pyqt'' = [CHR 0x27] @ ''pyqt'' @ [CHR 0x27]"
  by (simp add: py_repr_def repr_quote_def repr_char_def Let_def)

lemma repr_pyside: "py_repr ''pyside'' = [CHR 0x27] @ ''pyside'' @ [CHR 0x27]"
  by (simp add: py_repr_def repr_quote_def repr_char_def Let_def)

lemma format_message:
  "percent_format ''Invalid Qt API %r, valid values are: %r or %r'' [v, a, b] =
     Inr (''Invalid Qt API '' @ py_repr v @ '', valid values are: '' @ py_repr a
          @ '' or '' @ py_repr b)"
  by simp

lemma invalid_api_eq:
  "invalid_api v s =
     (Inl (RuntimeError (''Invalid Qt API '' @ py_repr v @ '', valid values are: ''
            @ py_repr ''pyqt'' @ '' or '' @ py_repr ''pyside'')), s)"
  unfolding invalid_api_def QT_API_PYQT_def QT_API_PYSIDE_def format_message
  by (simp add: raise_def)

lemma started_simps:
  "environ (started w) = environ w" "installed (started w) = installed w"
  "attrs (started w) = attrs w" "sip_api (started w) = sip_api w"
  by (simp_all add: started_def)

lemma repr_char_plain:
  "32 \<le> (of_char c :: nat) \<Longrightarrow> (of_char c :: nat) < 127 \<Longrightarrow> c \<noteq> CHR 0x5C \<Longrightarrow> c \<noteq> q
     \<Longrightarrow> repr_char q c = [c]"
  by (auto simp: repr_char_def)

lemma concat_singletons: "concat (map (\<lambda>c. [c]) v) = v"
  by (induction v) simp_all

lemma repr_plain:
  assumes "plain_text v"
  shows "py_repr v = repr_quote v # v @ [repr_quote v]"
proof -
  have q: "\<forall>c \<in> set v. c \<noteq> repr_quote v"
    using assms by (auto simp: plain_text_def repr_quote_def)
  have m: "map (repr_char (repr_quote v)) v = map (\<lambda>c. [c]) v"
    using assms q by (intro map_cong refl repr_char_plain) (auto simp: plain_text_def)
  show ?thesis
    unfolding py_repr_def Let_def m concat_singletons ..
qed

section \<open>The configuration error\<close>

text \<open>
  Claim C10. For a value of \<open>QT_API\<close> other than \<open>pyqt\<close> and \<open>pyside\<close> the run ends
  with a RuntimeError, no other exception, and its message is the format string
  \<open>Invalid Qt API %r, valid values are: %r or %r\<close> applied to the value and the two
  recognized identifiers: the \<open>repr\<close> of the value, then \<open>'pyqt'\<close> and \<open>'pyside'\<close>
  in their quotes.
\<close>

theorem invalid_value_is_runtime_error:
  assumes "environ w ''QT_API'' = Some v" and "v \<noteq> ''pyqt''" and "v \<noteq> ''pyside''"
  shows "fst (import_qt w) =
           Inl (RuntimeError (''Invalid Qt API '' @ py_repr v @ '', valid values are: ''
                  @ [CHR 0x27] @ ''pyqt'' @ [CHR 0x27] @ '' or ''
                  @ [CHR 0x27] @ ''pyside'' @ [CHR 0x27]))
         \<and> percent_format ''Invalid Qt API %r, valid values are: %r or %r''
               [v, QT_API_PYQT, QT_API_PYSIDE] =
           Inr (''Invalid Qt API '' @ py_repr v @ '', valid values are: ''
                  @ [CHR 0x27] @ ''pyqt'' @ [CHR 0x27] @ '' or ''
                  @ [CHR 0x27] @ ''pyside'' @ [CHR 0x27])"
proof -
  have sel: "selected w = v"
    using assms(1) by (simp add: selected_def)
  have "fst (import_qt w) = fst (invalid_api v (started w))"
    using assms(2,3) by (simp add: import_qt_eq sel)
  then show ?thesis
    by (simp add: invalid_api_eq repr_pyqt repr_pyside QT_API_PYQT_def QT_API_PYSIDE_def
          del: percent_format.simps)
       (simp add: format_message repr_pyqt repr_pyside)
qed

theorem invalid_value_is_runtime_error_witness:
  "environ (bare_host\<lparr>environ := [''QT_API'' \<mapsto> ''qtwidgets'']\<rparr>) ''QT_API'' = Some ''qtwidgets''
   \<and> fst (import_qt (bare_host\<lparr>environ := [''QT_API'' \<mapsto> ''qtwidgets'']\<rparr>)) =
     Inl (RuntimeError (''Invalid Qt API '' @ [CHR 0x27] @ ''qtwidgets'' @ [CHR 0x27]
            @ '', valid values are: '' @ [CHR 0x27] @ ''pyqt'' @ [CHR 0x27] @ '' or ''
            @ [CHR 0x27] @ ''pyside'' @ [CHR 0x27]))"
  using invalid_value_is_runtime_error
          [of "bare_host\<lparr>environ := [''QT_API'' \<mapsto> ''qtwidgets'']\<rparr>" "''qtwidgets''"]
  by (simp add: py_repr_def repr_quote_def repr_char_def Let_def)

section \<open>What each statement leaves unchanged, and what it logs\<close>

lemma keeps_seq: "keeps g m \<Longrightarrow> (\<And>x. keeps g (f x)) \<Longrightarrow> keeps g (seq m f)"
  unfolding keeps_def seq_def
proof
  fix s
  assume m: "\<forall>s. g (snd (m s)) = g s" and f: "\<And>x. \<forall>s. g (snd (f x s)) = g s"
  obtain r s' where ms: "m s = (r, s')" by (cases "m s")
  have s': "g s' = g s" using m [rule_format, of s] ms by simp
  show "g (snd (case m s of (Inl e, w') \<Rightarrow> (Inl e, w') | (Inr x, w') \<Rightarrow> f x w')) = g s"
    using ms s' f by (cases r) simp_all
qed

lemma only_logs_seq:
  assumes "only_logs A m" and "\<And>x. only_logs A (f x)"
  shows "only_logs A (seq m f)"
  unfolding only_logs_def
proof
  fix s
  obtain r s' where ms: "m s = (r, s')" by (cases "m s")
  obtain es where es: "trace s' = trace s @ es" "list_all A es"
    using assms(1) ms unfolding only_logs_def by (metis snd_conv)
  show "\<exists>es. trace (snd (seq m f s)) = trace s @ es \<and> list_all A es"
  proof (cases r)
    case (Inl e)
    then show ?thesis using ms es by (simp add: seq_def)
  next
    case (Inr x)
    obtain es' where es': "trace (snd (f x s')) = trace s' @ es'" "list_all A es'"
      using assms(2) unfolding only_logs_def by blast
    have "trace (snd (seq m f s)) = trace s @ (es @ es')"
      using ms Inr es es' by (simp add: seq_def)
    moreover have "list_all A (es @ es')" using es es' by simp
    ultimately show ?thesis by blast
  qed
qed

lemma keeps_store_name:
  "keeps environ (store_name n v)" "keeps installed (store_name n v)"
  "keeps attrs (store_name n v)" "keeps sip_api (store_name n v)"
  "k \<noteq> n \<Longrightarrow> keeps (\<lambda>s. globals s k) (store_name n v)"
  by (simp_all add: keeps_def store_name_def log_def)

lemma only_logs_store_name: "A (Store n) \<Longrightarrow> only_logs A (store_name n v)"
  by (simp add: only_logs_def store_name_def log_def)

lemma keeps_import_module:
  "keeps environ (import_module m)" "keeps installed (import_module m)"
  "keeps attrs (import_module m)" "keeps sip_api (import_module m)"
  "k \<noteq> m \<Longrightarrow> keeps (\<lambda>s. globals s k) (import_module m)"
  by (simp_all add: keeps_def import_module_def store_name_def log_def)

lemma only_logs_import_module:
  "A (Import m) \<Longrightarrow> A (Store m) \<Longrightarrow> only_logs A (import_module m)"
  by (simp add: only_logs_def import_module_def store_name_def log_def)

lemma keeps_sip_setapi:
  "keeps environ (sip_setapi a n)" "keeps installed (sip_setapi a n)"
  "keeps attrs (sip_setapi a n)" "keeps (\<lambda>s. globals s k) (sip_setapi a n)"
  by (simp_all add: keeps_def sip_setapi_def log_def split: option.split)

lemma only_logs_sip_setapi: "A (SetApi a n) \<Longrightarrow> only_logs A (sip_setapi a n)"
  by (simp add: only_logs_def sip_setapi_def log_def split: option.split)

lemma keeps_load_attr: "keeps g (load_attr n a)"
  by (simp add: keeps_def load_attr_def split: option.split pyobj.split)

lemma only_logs_load_attr: "only_logs A (load_attr n a)"
  by (simp add: only_logs_def load_attr_def split: option.split pyobj.split)

lemma keeps_store_attr:
  "keeps environ (store_attr n a v)" "keeps installed (store_attr n a v)"
  "keeps sip_api (store_attr n a v)" "keeps (\<lambda>s. globals s k) (store_attr n a v)"
  by (simp_all add: keeps_def store_attr_def log_def split: option.split pyobj.split)

lemma only_logs_store_attr: "(\<And>m. A (SetAttr m a)) \<Longrightarrow> only_logs A (store_attr n a v)"
  by (simp add: only_logs_def store_attr_def log_def split: option.split pyobj.split)

lemma load_submodules_fields:
  "environ (load_submodules pkg ns s) = environ s"
  "installed (load_submodules pkg ns s) = installed s"
  "attrs (load_submodules pkg ns s) = attrs s"
  "sip_api (load_submodules pkg ns s) = sip_api s"
  "globals (load_submodules pkg ns s) = globals s"
  by (induction ns arbitrary: s; simp add: log_def)+

lemma load_submodules_trace:
  "(\<And>n. n \<in> set ns \<Longrightarrow> A (Import (submodule pkg n)))
     \<Longrightarrow> \<exists>es. trace (load_submodules pkg ns s) = trace s @ es \<and> list_all A es"
proof (induction ns arbitrary: s)
  case Nil
  then show ?case by simp
next
  case (Cons n ns)
  let ?s = "if installed s (submodule pkg n) then log (Import (submodule pkg n)) s else s"
  obtain es where es: "trace (load_submodules pkg ns ?s) = trace ?s @ es" "list_all A es"
    using Cons.IH [of ?s] Cons.prems by auto
  show ?case
  proof (cases "installed s (submodule pkg n)")
    case True
    have "trace (load_submodules pkg (n # ns) s) = trace s @ (Import (submodule pkg n) # es)"
      using True es by (simp add: log_def)
    moreover have "list_all A (Import (submodule pkg n) # es)"
      using es Cons.prems by simp
    ultimately show ?thesis by blast
  next
    case False
    then show ?thesis using es by auto
  qed
qed

lemma import_names_fields:
  "environ (snd (import_names pkg ns s)) = environ s"
  "installed (snd (import_names pkg ns s)) = installed s"
  "attrs (snd (import_names pkg ns s)) = attrs s"
  "sip_api (snd (import_names pkg ns s)) = sip_api s"
  by (induction ns arbitrary: s; simp add: seq_def store_name_def log_def)+

lemma import_names_globals:
  "k \<notin> set ns \<Longrightarrow> globals (snd (import_names pkg ns s)) k = globals s k"
  by (induction ns arbitrary: s) (simp_all add: seq_def store_name_def log_def)

lemma import_names_trace:
  "(\<And>n. n \<in> set ns \<Longrightarrow> A (Store n))
     \<Longrightarrow> \<exists>es. trace (snd (import_names pkg ns s)) = trace s @ es \<and> list_all A es"
proof (induction ns arbitrary: s)
  case Nil
  then show ?case by simp
next
  case (Cons n ns)
  show ?case
  proof (cases "installed s (submodule pkg n)")
    case True
    let ?s = "log (Store n) (s\<lparr>globals := (globals s)(n \<mapsto> Module (submodule pkg n))\<rparr>)"
    obtain es where es: "trace (snd (import_names pkg ns ?s)) = trace ?s @ es" "list_all A es"
      using Cons.IH [of ?s] Cons.prems by auto
    have "trace (snd (import_names pkg (n # ns) s)) = trace s @ (Store n # es)"
      using True es by (simp add: seq_def store_name_def log_def)
    moreover have "list_all A (Store n # es)"
      using es Cons.prems by simp
    ultimately show ?thesis by blast
  next
    case False
    then show ?thesis by simp
  qed
qed

lemma keeps_from_import:
  "keeps environ (from_import pkg ns)" "keeps installed (from_import pkg ns)"
  "keeps attrs (from_import pkg ns)" "keeps sip_api (from_import pkg ns)"
  "k \<notin> set ns \<Longrightarrow> keeps (\<lambda>s. globals s k) (from_import pkg ns)"
  by (simp_all add: keeps_def from_import_def import_names_fields import_names_globals
        load_submodules_fields log_def)

lemma only_logs_from_import:
  assumes "A (Import pkg)"
    and "\<And>n. n \<in> set ns \<Longrightarrow> A (Import (submodule pkg n))"
    and "\<And>n. n \<in> set ns \<Longrightarrow> A (Store n)"
  shows "only_logs A (from_import pkg ns)"
  unfolding only_logs_def
proof
  fix s
  show "\<exists>es. trace (snd (from_import pkg ns s)) = trace s @ es \<and> list_all A es"
  proof (cases "installed s pkg")
    case False
    then show ?thesis by (simp add: from_import_def)
  next
    case True
    let ?s1 = "log (Import pkg) s"
    let ?s2 = "load_submodules pkg ns ?s1"
    obtain es where es: "trace ?s2 = trace ?s1 @ es" "list_all A es"
      using load_submodules_trace [of ns A pkg ?s1] assms(2) by blast
    obtain es' where es': "trace (snd (import_names pkg ns ?s2)) = trace ?s2 @ es'" "list_all A es'"
      using import_names_trace [of ns A pkg ?s2] assms(3) by blast
    have "trace (snd (from_import pkg ns s)) = trace s @ (Import pkg # es @ es')"
      using True es es' by (simp add: from_import_def log_def)
    moreover have "list_all A (Import pkg # es @ es')"
      using assms(1) es es' by simp
    ultimately show ?thesis by blast
  qed
qed

lemma keeps_invalid_api: "keeps g (invalid_api v)"
  by (simp add: keeps_def invalid_api_eq)

lemma only_logs_invalid_api: "only_logs A (invalid_api v)"
  by (simp add: only_logs_def invalid_api_eq)

section \<open>The three branches\<close>

lemma keeps_pyqt_branch:
  "keeps environ pyqt_branch" "keeps installed pyqt_branch"
  "k \<noteq> ''sip'' \<Longrightarrow> k \<noteq> ''QtCore'' \<Longrightarrow> k \<noteq> ''QtGui'' \<Longrightarrow> k \<noteq> ''QtSvg''
     \<Longrightarrow> keeps (\<lambda>s. globals s k) pyqt_branch"
  unfolding pyqt_branch_def
  by (intro keeps_seq keeps_import_module keeps_sip_setapi keeps_from_import keeps_load_attr
        keeps_store_attr; simp)+

lemma keeps_pyside_branch:
  "keeps environ pyside_branch" "keeps installed pyside_branch"
  "keeps attrs pyside_branch" "keeps sip_api pyside_branch"
  "k \<noteq> ''QtCore'' \<Longrightarrow> k \<noteq> ''QtGui'' \<Longrightarrow> k \<noteq> ''QtSvg'' \<Longrightarrow> keeps (\<lambda>s. globals s k) pyside_branch"
  unfolding pyside_branch_def
  by (intro keeps_from_import; simp)+

lemma only_logs_pyqt_branch:
  assumes "A (Import ''sip'')" "A (Store ''sip'')" "A (SetApi ''QString'' 2)"
    "A (SetApi ''QVariant'' 2)" "A (Import ''PyQt4'')"
    "\<And>n. n \<in> {''QtCore'', ''QtGui'', ''QtSvg''} \<Longrightarrow> A (Import (submodule ''PyQt4'' n)) \<and> A (Store n)"
    "\<And>m. A (SetAttr m ''Signal'')" "\<And>m. A (SetAttr m ''Slot'')"
  shows "only_logs A pyqt_branch"
  unfolding pyqt_branch_def
  using assms
  by (intro only_logs_seq only_logs_import_module only_logs_sip_setapi only_logs_from_import
        only_logs_load_attr only_logs_store_attr) simp_all

lemma only_logs_pyside_branch:
  assumes "A (Import ''PySide'')"
    "\<And>n. n \<in> {''QtCore'', ''QtGui'', ''QtSvg''} \<Longrightarrow> A (Import (submodule ''PySide'' n)) \<and> A (Store n)"
  shows "only_logs A pyside_branch"
  unfolding pyside_branch_def
  using assms
  by (intro only_logs_from_import) simp_all

text \<open>Whatever the branch and its outcome, a name bound before the branch keeps its value.\<close>

lemma import_qt_globals:
  assumes "k \<noteq> ''sip''" "k \<noteq> ''QtCore''" "k \<noteq> ''QtGui''" "k \<noteq> ''QtSvg''"
  shows "globals (snd (import_qt w)) k = globals (started w) k"
  using keeps_pyqt_branch(3) [OF assms] keeps_pyside_branch(5) [OF assms(2-4)]
    keeps_invalid_api [of "\<lambda>s. globals s k"]
  by (simp add: import_qt_eq keeps_def)

lemma import_qt_environ: "environ (snd (import_qt w)) = environ w"
  using keeps_pyqt_branch(1) keeps_pyside_branch(1) keeps_invalid_api [of environ]
  by (simp add: import_qt_eq keeps_def started_simps)

text \<open>What the branch logs comes after the six events of the start.\<close>

lemma import_qt_trace:
  assumes "A (Import ''sip'')" "A (Store ''sip'')" "A (SetApi ''QString'' 2)"
    "A (SetApi ''QVariant'' 2)" "A (Import ''PyQt4'')" "A (Import ''PySide'')"
    "\<And>n. n \<in> {''QtCore'', ''QtGui'', ''QtSvg''} \<Longrightarrow>
       A (Import (submodule ''PyQt4'' n)) \<and> A (Import (submodule ''PySide'' n)) \<and> A (Store n)"
    "\<And>m. A (SetAttr m ''Signal'')" "\<And>m. A (SetAttr m ''Slot'')"
  shows "\<exists>es. trace (snd (import_qt w)) = trace (started w) @ es \<and> list_all A es"
proof -
  have 1: "only_logs A pyqt_branch"
    using assms by (intro only_logs_pyqt_branch) simp_all
  have 2: "only_logs A pyside_branch"
    using assms by (intro only_logs_pyside_branch) simp_all
  have 3: "only_logs A (invalid_api (selected w))"
    by (rule only_logs_invalid_api)
  show ?thesis
    using 1 2 3 unfolding only_logs_def import_qt_eq by simp
qed

lemma invalid_run:
  assumes "environ w ''QT_API'' = Some v" and "v \<noteq> ''pyqt''" and "v \<noteq> ''pyside''"
  shows "import_qt w = invalid_api v (started w)"
  using assms by (simp add: import_qt_eq selected_def)

lemma started_at:
  "environ w ''QT_API'' = Some v \<Longrightarrow>
     started w = w\<lparr>globals := [''os'' \<mapsto> Module ''os'', ''QT_API_PYQT'' \<mapsto> Str ''pyqt'',
                   ''QT_API_PYSIDE'' \<mapsto> Str ''pyside'', ''QT_API'' \<mapsto> Str v],
       trace := [Import ''os'', Store ''os'', Store ''QT_API_PYQT'', Store ''QT_API_PYSIDE'',
                 EnvGet ''QT_API'', Store ''QT_API'']\<rparr>"
  by (simp add: started_def selected_def)

section \<open>Unrecognized values\<close>

text \<open>
  Claim C5. With an unrecognized value the run ends in the configuration error having
  done nothing but import \<open>os\<close>, read the variable and bind its own three names: the
  log shows no import of a binding library and no call of \<open>setapi\<close>, and the API
  versions registered with sip, the attributes of every module, the environment and the
  set of importable modules are what they were.
\<close>

theorem unrecognized_value_no_effects:
  assumes "environ w ''QT_API'' = Some v" and "v \<noteq> ''pyqt''" and "v \<noteq> ''pyside''"
  shows "(\<exists>msg. fst (import_qt w) = Inl (RuntimeError msg))
         \<and> trace (snd (import_qt w)) =
             [Import ''os'', Store ''os'', Store ''QT_API_PYQT'', Store ''QT_API_PYSIDE'',
              EnvGet ''QT_API'', Store ''QT_API'']
         \<and> sip_api (snd (import_qt w)) = sip_api w
         \<and> attrs (snd (import_qt w)) = attrs w
         \<and> environ (snd (import_qt w)) = environ w
         \<and> installed (snd (import_qt w)) = installed w"
  by (simp add: invalid_run [OF assms] invalid_api_eq started_at [OF assms(1)])

theorem unrecognized_value_no_effects_witness:
  "environ (bare_host\<lparr>environ := [''QT_API'' \<mapsto> ''gtk'']\<rparr>) ''QT_API'' = Some ''gtk''
   \<and> trace (snd (import_qt (bare_host\<lparr>environ := [''QT_API'' \<mapsto> ''gtk'']\<rparr>))) =
       [Import ''os'', Store ''os'', Store ''QT_API_PYQT'', Store ''QT_API_PYSIDE'',
        EnvGet ''QT_API'', Store ''QT_API'']
   \<and> sip_api (snd (import_qt (bare_host\<lparr>environ := [''QT_API'' \<mapsto> ''gtk'']\<rparr>))) = Map.empty"
  using unrecognized_value_no_effects [of "bare_host\<lparr>environ := [''QT_API'' \<mapsto> ''gtk'']\<rparr>" "''gtk''"]
  by (simp add: bare_host_def)

text \<open>
  Claim C8. The value is compared as it stands: every string other than \<open>pyqt\<close> and
  \<open>pyside\<close> themselves, such as \<open>PyQt\<close> or \<open>pyqt\<close> after a blank, ends the run in
  the configuration error, and the name \<open>QT_API\<close> holds the value of the environment
  unchanged.
\<close>

theorem matching_is_exact:
  assumes "environ w ''QT_API'' = Some v" and "v \<noteq> ''pyqt''" and "v \<noteq> ''pyside''"
  shows "(\<exists>msg. fst (import_qt w) = Inl (RuntimeError msg))
         \<and> globals (snd (import_qt w)) ''QT_API'' = Some (Str v)"
  by (simp add: invalid_run [OF assms] invalid_api_eq started_at [OF assms(1)])

theorem matching_is_exact_witness:
  "environ (bare_host\<lparr>environ := [''QT_API'' \<mapsto> ''PyQt'']\<rparr>) ''QT_API'' = Some ''PyQt''
   \<and> globals (snd (import_qt (bare_host\<lparr>environ := [''QT_API'' \<mapsto> ''PyQt'']\<rparr>))) ''QT_API''
       = Some (Str ''PyQt'')
   \<and> environ (pyqt_host\<lparr>environ := [''QT_API'' \<mapsto> '' pyqt'']\<rparr>) ''QT_API'' = Some '' pyqt''
   \<and> globals (snd (import_qt (pyqt_host\<lparr>environ := [''QT_API'' \<mapsto> '' pyqt'']\<rparr>))) ''QT_API''
       = Some (Str '' pyqt'')"
  using matching_is_exact [of "bare_host\<lparr>environ := [''QT_API'' \<mapsto> ''PyQt'']\<rparr>" "''PyQt''"]
    matching_is_exact [of "pyqt_host\<lparr>environ := [''QT_API'' \<mapsto> '' pyqt'']\<rparr>" "'' pyqt''"]
  by simp

text \<open>
  Claim C6. The empty string is a value like any other unrecognized one: the run ends
  in the configuration error and \<open>QT_API\<close> holds the empty string. The name holds
  \<open>pyqt\<close> exactly when the variable is absent or is \<open>pyqt\<close> itself, so the default
  stands in for an absent variable only.
\<close>

theorem empty_string_is_invalid:
  "(environ w ''QT_API'' = Some '''' \<longrightarrow>
      fst (import_qt w) =
        Inl (RuntimeError (''Invalid Qt API '' @ [CHR 0x27, CHR 0x27] @ '', valid values are: ''
               @ [CHR 0x27] @ ''pyqt'' @ [CHR 0x27] @ '' or '' @ [CHR 0x27] @ ''pyside'' @ [CHR 0x27]))
      \<and> globals (snd (import_qt w)) ''QT_API'' = Some (Str ''''))
   \<and> (globals (snd (import_qt w)) ''QT_API'' = Some (Str QT_API_PYQT)
        \<longleftrightarrow> environ w ''QT_API'' = None \<or> environ w ''QT_API'' = Some ''pyqt'')"
proof -
  have "globals (snd (import_qt w)) ''QT_API'' = Some (Str (selected w))"
    by (simp add: import_qt_globals started_def)
  moreover have "selected w = QT_API_PYQT
      \<longleftrightarrow> environ w ''QT_API'' = None \<or> environ w ''QT_API'' = Some ''pyqt''"
    by (simp add: selected_def QT_API_PYQT_def split: option.split)
  moreover have "fst (import_qt w) =
        Inl (RuntimeError (''Invalid Qt API '' @ [CHR 0x27, CHR 0x27] @ '', valid values are: ''
               @ [CHR 0x27] @ ''pyqt'' @ [CHR 0x27] @ '' or '' @ [CHR 0x27] @ ''pyside'' @ [CHR 0x27]))"
    and "selected w = ''''"
    if "environ w ''QT_API'' = Some ''''"
    using that invalid_run [of w "''''"]
    by (simp_all add: invalid_api_eq repr_pyqt repr_pyside selected_def)
       (simp add: py_repr_def repr_quote_def Let_def)
  ultimately show ?thesis by simp
qed

theorem empty_string_is_invalid_witness:
  "environ (pyqt_host\<lparr>environ := [''QT_API'' \<mapsto> '''']\<rparr>) ''QT_API'' = Some ''''
   \<and> fst (import_qt (pyqt_host\<lparr>environ := [''QT_API'' \<mapsto> '''']\<rparr>)) =
        Inl (RuntimeError (''Invalid Qt API '' @ [CHR 0x27, CHR 0x27] @ '', valid values are: ''
               @ [CHR 0x27] @ ''pyqt'' @ [CHR 0x27] @ '' or '' @ [CHR 0x27] @ ''pyside'' @ [CHR 0x27]))
   \<and> globals (snd (import_qt (pyqt_host\<lparr>environ := [''QT_API'' \<mapsto> '''']\<rparr>))) ''QT_API''
        \<noteq> Some (Str QT_API_PYQT)
   \<and> environ bare_host ''QT_API'' = None
   \<and> globals (snd (import_qt bare_host)) ''QT_API'' = Some (Str QT_API_PYQT)"
  using empty_string_is_invalid [of "pyqt_host\<lparr>environ := [''QT_API'' \<mapsto> '''']\<rparr>"]
    empty_string_is_invalid [of bare_host]
  by (simp add: bare_host_def QT_API_PYQT_def)

section \<open>The resolved identity\<close>

text \<open>
  Claim C9. Whatever the environment and the host, the namespace of the module holds
  the resolved identity under \<open>QT_API\<close> (the value of the variable, or \<open>pyqt\<close> when
  the variable is absent) and the two recognized identifiers under \<open>QT_API_PYQT\<close> and
  \<open>QT_API_PYSIDE\<close>, which are \<open>pyqt\<close> and \<open>pyside\<close>.
\<close>

theorem namespace_exposes_identity:
  "globals (snd (import_qt w)) ''QT_API'' =
     Some (Str (case environ w ''QT_API'' of None \<Rightarrow> ''pyqt'' | Some v \<Rightarrow> v))
   \<and> globals (snd (import_qt w)) ''QT_API_PYQT'' = Some (Str ''pyqt'')
   \<and> globals (snd (import_qt w)) ''QT_API_PYSIDE'' = Some (Str ''pyside'')
   \<and> QT_API_PYQT = ''pyqt'' \<and> QT_API_PYSIDE = ''pyside''"
  by (simp add: import_qt_globals started_def selected_def QT_API_PYQT_def QT_API_PYSIDE_def
        split: option.split)

text \<open>
  Claim C7. Every run reads the environment once, the variable \<open>QT_API\<close>, and binds
  the name \<open>QT_API\<close> once; the run leaves the environment as it was. A later read of
  the name returns the value resolved at that one read and changes nothing, so that
  reading again returns it again, also when the environment has been changed since.
\<close>

theorem configuration_read_once:
  "filter is_env_read (trace (snd (import_qt w))) = [EnvGet ''QT_API'']
   \<and> filter (\<lambda>e. e = Store ''QT_API'') (trace (snd (import_qt w))) = [Store ''QT_API'']
   \<and> environ (snd (import_qt w)) = environ w
   \<and> (\<forall>env'. read_global ''QT_API'' ((snd (import_qt w))\<lparr>environ := env'\<rparr>) =
        (Inr (Str (case environ w ''QT_API'' of None \<Rightarrow> ''pyqt'' | Some v \<Rightarrow> v)),
         (snd (import_qt w))\<lparr>environ := env'\<rparr>))"
proof -
  let ?A = "\<lambda>e. \<not> is_env_read e \<and> e \<noteq> Store ''QT_API''"
  obtain es where es: "trace (snd (import_qt w)) = trace (started w) @ es" "list_all ?A es"
    using import_qt_trace [of ?A w] by auto
  have none: "filter is_env_read es = []" "filter (\<lambda>e. e = Store ''QT_API'') es = []"
    using es(2) by (simp_all add: list_all_iff filter_empty_conv)
  have "globals (snd (import_qt w)) ''QT_API'' =
      Some (Str (case environ w ''QT_API'' of None \<Rightarrow> ''pyqt'' | Some v \<Rightarrow> v))"
    by (simp add: import_qt_globals started_def selected_def QT_API_PYQT_def split: option.split)
  then show ?thesis
    using es(1) none by (simp add: started_def read_global_def import_qt_environ)
qed

section \<open>What the message of the configuration error contains\<close>

text \<open>
  Claim C1, as amended. For a value of \<open>QT_API\<close> other than \<open>pyqt\<close> and \<open>pyside\<close>
  the run ends at once in a RuntimeError whose message contains the \<open>repr\<close> of the
  value and both identifiers \<open>pyqt\<close> and \<open>pyside\<close>. The value itself stands in the
  message whenever it is printable ASCII without a backslash and without both kinds of
  quote, since \<open>repr\<close> leaves such a string as it is.
\<close>

theorem invalid_value_message:
  assumes "environ w ''QT_API'' = Some v" and "v \<noteq> ''pyqt''" and "v \<noteq> ''pyside''"
  shows "\<exists>msg. fst (import_qt w) = Inl (RuntimeError msg)
           \<and> sublist (py_repr v) msg \<and> sublist ''pyqt'' msg \<and> sublist ''pyside'' msg
           \<and> (plain_text v \<longrightarrow> sublist v msg)"
proof -
  let ?head = "''Invalid Qt API ''"
  let ?mid = "'', valid values are: ''"
  let ?msg = "?head @ py_repr v @ ?mid @ py_repr ''pyqt'' @ '' or '' @ py_repr ''pyside''"
  have run: "fst (import_qt w) = Inl (RuntimeError ?msg)"
    by (simp only: invalid_run [OF assms] invalid_api_eq fst_conv)
  have 1: "sublist (py_repr v) ?msg"
    by (rule sublist_appendI)
  have "?msg = (?head @ py_repr v @ ?mid @ [CHR 0x27]) @ ''pyqt''
                 @ ([CHR 0x27] @ '' or '' @ py_repr ''pyside'')"
    by (simp add: repr_pyqt)
  then have 2: "sublist ''pyqt'' ?msg"
    unfolding sublist_def by blast
  have "?msg = (?head @ py_repr v @ ?mid @ py_repr ''pyqt'' @ '' or '' @ [CHR 0x27]) @ ''pyside''
                 @ [CHR 0x27]"
    by (simp add: repr_pyside)
  then have 3: "sublist ''pyside'' ?msg"
    unfolding sublist_def by blast
  have 4: "sublist v ?msg" if "plain_text v"
  proof -
    have "?msg = (?head @ [repr_quote v]) @ v
                   @ ([repr_quote v] @ ?mid @ py_repr ''pyqt'' @ '' or '' @ py_repr ''pyside'')"
      by (simp add: repr_plain [OF that])
    then show ?thesis
      unfolding sublist_def by blast
  qed
  show ?thesis
    using run 1 2 3 4 by blast
qed

theorem invalid_value_message_witness:
  "environ (bare_host\<lparr>environ := [''QT_API'' \<mapsto> ''qtwidgets'']\<rparr>) ''QT_API'' = Some ''qtwidgets''
   \<and> plain_text ''qtwidgets''
   \<and> (\<exists>msg. fst (import_qt (bare_host\<lparr>environ := [''QT_API'' \<mapsto> ''qtwidgets'']\<rparr>))
                = Inl (RuntimeError msg)
          \<and> sublist ''qtwidgets'' msg \<and> sublist ''pyqt'' msg \<and> sublist ''pyside'' msg)"
proof -
  have p: "plain_text ''qtwidgets''"
    by (simp add: plain_text_def)
  show ?thesis
    using p invalid_value_message
            [of "bare_host\<lparr>environ := [''QT_API'' \<mapsto> ''qtwidgets'']\<rparr>" "''qtwidgets''"]
    by auto
qed

text \<open>
  The claim as stated fails for a value that \<open>repr\<close> escapes. With \<open>QT_API\<close> set to
  a single newline the message holds a backslash and the letter n between the quotes,
  and no newline anywhere.
\<close>

theorem newline_value_not_in_message:
  "environ (bare_host\<lparr>environ := [''QT_API'' \<mapsto> [CHR 0x0A]]\<rparr>) ''QT_API'' = Some [CHR 0x0A]
   \<and> fst (import_qt (bare_host\<lparr>environ := [''QT_API'' \<mapsto> [CHR 0x0A]]\<rparr>)) =
       Inl (RuntimeError (''Invalid Qt API '' @ [CHR 0x27, CHR 0x5C, CHR ''n'', CHR 0x27]
              @ '', valid values are: '' @ [CHR 0x27] @ ''pyqt'' @ [CHR 0x27] @ '' or ''
              @ [CHR 0x27] @ ''pyside'' @ [CHR 0x27]))
   \<and> \<not> sublist [CHR 0x0A]
         (''Invalid Qt API '' @ [CHR 0x27, CHR 0x5C, CHR ''n'', CHR 0x27]
              @ '', valid values are: '' @ [CHR 0x27] @ ''pyqt'' @ [CHR 0x27] @ '' or ''
              @ [CHR 0x27] @ ''pyside'' @ [CHR 0x27])"
proof -
  have "import_qt (bare_host\<lparr>environ := [''QT_API'' \<mapsto> [CHR 0x0A]]\<rparr>)
          = invalid_api [CHR 0x0A] (started (bare_host\<lparr>environ := [''QT_API'' \<mapsto> [CHR 0x0A]]\<rparr>))"
    by (rule invalid_run) simp_all
  then have "fst (import_qt (bare_host\<lparr>environ := [''QT_API'' \<mapsto> [CHR 0x0A]]\<rparr>)) =
       Inl (RuntimeError (''Invalid Qt API '' @ [CHR 0x27, CHR 0x5C, CHR ''n'', CHR 0x27]
              @ '', valid values are: '' @ [CHR 0x27] @ ''pyqt'' @ [CHR 0x27] @ '' or ''
              @ [CHR 0x27] @ ''pyside'' @ [CHR 0x27]))"
    by (simp add: invalid_api_eq repr_pyqt repr_pyside)
       (simp add: py_repr_def repr_quote_def repr_char_def Let_def)
  moreover have "\<not> sublist [CHR 0x0A]
         (''Invalid Qt API '' @ [CHR 0x27, CHR 0x5C, CHR ''n'', CHR 0x27]
              @ '', valid values are: '' @ [CHR 0x27] @ ''pyqt'' @ [CHR 0x27] @ '' or ''
              @ [CHR 0x27] @ ''pyside'' @ [CHR 0x27])"
    by (simp add: sublist_Cons_right)
  ultimately show ?thesis by simp
qed

section \<open>The PyQt branch, statement by statement\<close>

lemma pyqt_branch_split:
  "pyqt_branch =
     seq (import_module ''sip'') (\<lambda>_.
     seq (sip_setapi ''QString'' 2) (\<lambda>_.
     seq (sip_setapi ''QVariant'' 2) (\<lambda>_. pyqt_imports)))"
  by (simp add: pyqt_branch_def pyqt_imports_def)

lemma import_module_ok:
  "installed s m \<Longrightarrow>
     import_module m s =
       (Inr (), s\<lparr>globals := (globals s)(m \<mapsto> Module m), trace := trace s @ [Import m, Store m]\<rparr>)"
  by (simp add: import_module_def store_name_def log_def)

lemma import_module_fail:
  "\<not> installed s m \<Longrightarrow> import_module m s = (Inl (ImportError (''No module named '' @ m)), s)"
  by (simp add: import_module_def)

lemma sip_setapi_ok:
  assumes "globals s ''sip'' \<noteq> None" and "sip_api s a = None \<or> sip_api s a = Some n"
  shows "sip_setapi a n s =
           (Inr (), s\<lparr>sip_api := (sip_api s)(a \<mapsto> n), trace := trace s @ [SetApi a n]\<rparr>)"
  using assms by (auto simp: sip_setapi_def log_def map_upd_triv)

lemma sip_setapi_fail:
  assumes "globals s ''sip'' \<noteq> None" and "sip_api s a = Some v" and "v \<noteq> n"
  shows "\<exists>e. sip_setapi a n s = (Inl e, s)"
  using assms by (auto simp: sip_setapi_def)

lemma from_import_ok:
  assumes "installed s pkg" and "installed s (submodule pkg a)"
    and "installed s (submodule pkg b)" and "installed s (submodule pkg c)"
  shows "from_import pkg [a, b, c] s =
           (Inr (), s\<lparr>globals := (globals s)(a \<mapsto> Module (submodule pkg a),
                                    b \<mapsto> Module (submodule pkg b), c \<mapsto> Module (submodule pkg c)),
                   trace := trace s @ [Import pkg, Import (submodule pkg a),
                              Import (submodule pkg b), Import (submodule pkg c),
                              Store a, Store b, Store c]\<rparr>)"
  using assms by (simp add: from_import_def seq_def store_name_def log_def)

lemma pyqt_imports_ok:
  assumes "installed s ''PyQt4''" "installed s ''PyQt4.QtCore''" "installed s ''PyQt4.QtGui''"
    "installed s ''PyQt4.QtSvg''"
    "attrs s ''PyQt4.QtCore'' ''pyqtSignal'' = Some sig"
    "attrs s ''PyQt4.QtCore'' ''pyqtSlot'' = Some slot"
  shows "pyqt_imports s =
     (Inr (), s\<lparr>globals := (globals s)(''QtCore'' \<mapsto> Module ''PyQt4.QtCore'',
                     ''QtGui'' \<mapsto> Module ''PyQt4.QtGui'', ''QtSvg'' \<mapsto> Module ''PyQt4.QtSvg''),
         attrs := (attrs s)(''PyQt4.QtCore'' :=
                     (attrs s ''PyQt4.QtCore'')(''Signal'' \<mapsto> sig, ''Slot'' \<mapsto> slot)),
         trace := trace s @ [Import ''PyQt4'', Import ''PyQt4.QtCore'', Import ''PyQt4.QtGui'',
                    Import ''PyQt4.QtSvg'', Store ''QtCore'', Store ''QtGui'', Store ''QtSvg'',
                    SetAttr ''PyQt4.QtCore'' ''Signal'', SetAttr ''PyQt4.QtCore'' ''Slot'']\<rparr>)"
proof -
  have 1: "from_import ''PyQt4'' [''QtCore'', ''QtGui'', ''QtSvg''] s = (Inr (), 
      s\<lparr>globals := (globals s)(''QtCore'' \<mapsto> Module ''PyQt4.QtCore'',
                     ''QtGui'' \<mapsto> Module ''PyQt4.QtGui'', ''QtSvg'' \<mapsto> Module ''PyQt4.QtSvg''),
         trace := trace s @ [Import ''PyQt4'', Import ''PyQt4.QtCore'', Import ''PyQt4.QtGui'',
                    Import ''PyQt4.QtSvg'', Store ''QtCore'', Store ''QtGui'', Store ''QtSvg'']\<rparr>)"
    using from_import_ok [of s "''PyQt4''" "''QtCore''" "''QtGui''" "''QtSvg''"] assms(1-4)
    by (simp add: submodule_def)
  show ?thesis
    unfolding pyqt_imports_def
    by (simp add: seq_def 1 load_attr_def store_attr_def log_def assms(5,6))
qed

lemma selected_pyqt:
  "environ w ''QT_API'' = None \<or> environ w ''QT_API'' = Some ''pyqt'' \<Longrightarrow> selected w = ''pyqt''"
  by (auto simp: selected_def QT_API_PYQT_def)

lemma pyqt_run_cases:
  assumes s: "selected w = ''pyqt''"
  shows "(sip_ready w \<and> import_qt w = pyqt_imports (switched w))
       \<or> (\<not> sip_ready w \<and>
           (\<exists>e es. fst (import_qt w) = Inl e
              \<and> trace (snd (import_qt w)) = trace (started w) @ es
              \<and> (es = [] \<or> es = [Import ''sip'', Store ''sip'']
                  \<or> es = [Import ''sip'', Store ''sip'', SetApi ''QString'' 2])))"
proof -
  let ?s0 = "started w"
  let ?s1 = "?s0\<lparr>globals := (globals ?s0)(''sip'' \<mapsto> Module ''sip''),
                 trace := trace ?s0 @ [Import ''sip'', Store ''sip'']\<rparr>"
  let ?s2 = "?s1\<lparr>sip_api := (sip_api ?s1)(''QString'' \<mapsto> 2),
                 trace := trace ?s1 @ [SetApi ''QString'' 2]\<rparr>"
  let ?s3 = "?s2\<lparr>sip_api := (sip_api ?s2)(''QVariant'' \<mapsto> 2),
                 trace := trace ?s2 @ [SetApi ''QVariant'' 2]\<rparr>"
  have run: "import_qt w = pyqt_branch ?s0"
    by (simp add: import_qt_eq s)
  show ?thesis
  proof (cases "installed w ''sip''")
    case False
    then have "import_module ''sip'' ?s0 = (Inl (ImportError (''No module named '' @ ''sip'')), ?s0)"
      by (intro import_module_fail) (simp add: started_simps)
    then have "pyqt_branch ?s0 = (Inl (ImportError (''No module named '' @ ''sip'')), ?s0)"
      unfolding pyqt_branch_split by (simp only: seq_def prod.case sum.case)
    then show ?thesis
      using False by (simp add: run sip_ready_def)
  next
    case True
    then have 1: "import_module ''sip'' ?s0 = (Inr (), ?s1)"
      by (intro import_module_ok) (simp add: started_simps)
    show ?thesis
    proof (cases "sip_api w ''QString'' = None \<or> sip_api w ''QString'' = Some 2")
      case False
      then obtain v where "sip_api ?s1 ''QString'' = Some v" "v \<noteq> 2"
        by (auto simp: started_simps)
      then obtain e where "sip_setapi ''QString'' 2 ?s1 = (Inl e, ?s1)"
        using sip_setapi_fail [of ?s1 "''QString''" v 2] by auto
      then have "pyqt_branch ?s0 = (Inl e, ?s1)"
        unfolding pyqt_branch_split by (simp only: seq_def 1 prod.case sum.case)
      then show ?thesis
        using False by (simp add: run sip_ready_def)
    next
      case q1: True
      then have 2: "sip_setapi ''QString'' 2 ?s1 = (Inr (), ?s2)"
        by (intro sip_setapi_ok) (simp_all add: started_simps)
      show ?thesis
      proof (cases "sip_api w ''QVariant'' = None \<or> sip_api w ''QVariant'' = Some 2")
        case False
        then obtain v where "sip_api ?s2 ''QVariant'' = Some v" "v \<noteq> 2"
          by (auto simp: started_simps)
        then obtain e where "sip_setapi ''QVariant'' 2 ?s2 = (Inl e, ?s2)"
          using sip_setapi_fail [of ?s2 "''QVariant''" v 2] by auto
        then have "pyqt_branch ?s0 = (Inl e, ?s2)"
          unfolding pyqt_branch_split by (simp only: seq_def 1 2 prod.case sum.case)
        then show ?thesis
          using False by (simp add: run sip_ready_def)
      next
        case q2: True
        then have 3: "sip_setapi ''QVariant'' 2 ?s2 = (Inr (), ?s3)"
          by (intro sip_setapi_ok) (simp_all add: started_simps)
        have "pyqt_branch ?s0 = pyqt_imports ?s3"
          unfolding pyqt_branch_split by (simp only: seq_def 1 2 3 prod.case sum.case)
        moreover have "?s3 = switched w"
          by (simp add: switched_def started_simps)
        ultimately show ?thesis
          using True q1 q2 by (simp add: run sip_ready_def)
      qed
    qed
  qed
qed

lemma pyqt_run_ok:
  assumes sel: "selected w = ''pyqt''" and ready: "sip_ready w"
    and qt: "installed w ''PyQt4''" "installed w ''PyQt4.QtCore''" "installed w ''PyQt4.QtGui''"
      "installed w ''PyQt4.QtSvg''"
    and at: "attrs w ''PyQt4.QtCore'' ''pyqtSignal'' = Some sig"
      "attrs w ''PyQt4.QtCore'' ''pyqtSlot'' = Some slot"
  shows "import_qt w = (Inr (), pyqt_done w sig slot)"
proof -
  have "import_qt w = pyqt_imports (switched w)"
    using pyqt_run_cases [OF sel] ready by blast
  also have "\<dots> = (Inr (), pyqt_done w sig slot)"
    using qt at
    by (subst pyqt_imports_ok [of _ sig slot])
       (simp_all add: switched_def started_def sel pyqt_done_def)
  finally show ?thesis .
qed

lemma keeps_pyqt_imports: "keeps sip_api pyqt_imports"
  unfolding pyqt_imports_def
  by (intro keeps_seq keeps_from_import keeps_load_attr keeps_store_attr)

lemma only_logs_pyqt_imports: "only_logs (\<lambda>e. True) pyqt_imports"
  unfolding pyqt_imports_def
  by (intro only_logs_seq only_logs_from_import only_logs_load_attr only_logs_store_attr) simp_all

lemma before_absent: "b \<notin> set t \<Longrightarrow> before a b t"
  by (simp add: before_def)

lemma before_append: "a \<in> set pre \<Longrightarrow> b \<notin> set pre \<Longrightarrow> before a b (pre @ es)"
proof -
  assume a: "a \<in> set pre" and b: "b \<notin> set pre"
  have "takeWhile (\<lambda>e. e \<noteq> b) (pre @ es) = pre @ takeWhile (\<lambda>e. e \<noteq> b) es"
    using b by (intro takeWhile_append2) auto
  then show ?thesis
    using a by (simp add: before_def)
qed

text \<open>The log of a run of the PyQt branch.\<close>

lemma pyqt_trace:
  assumes s: "selected w = ''pyqt''"
  shows "(sip_ready w \<and> sip_api (snd (import_qt w)) = (sip_api w)(''QString'' \<mapsto> 2, ''QVariant'' \<mapsto> 2)
            \<and> (\<exists>es. trace (snd (import_qt w)) =
                  [Import ''os'', Store ''os'', Store ''QT_API_PYQT'', Store ''QT_API_PYSIDE'',
                   EnvGet ''QT_API'', Store ''QT_API'', Import ''sip'', Store ''sip'',
                   SetApi ''QString'' 2, SetApi ''QVariant'' 2] @ es))
       \<or> (\<not> sip_ready w \<and> (\<exists>e. fst (import_qt w) = Inl e) \<and>
           (\<exists>es. trace (snd (import_qt w)) =
                  [Import ''os'', Store ''os'', Store ''QT_API_PYQT'', Store ''QT_API_PYSIDE'',
                   EnvGet ''QT_API'', Store ''QT_API''] @ es
              \<and> (es = [] \<or> es = [Import ''sip'', Store ''sip'']
                  \<or> es = [Import ''sip'', Store ''sip'', SetApi ''QString'' 2])))"
proof (cases "sip_ready w")
  case True
  then have run: "import_qt w = pyqt_imports (switched w)"
    using pyqt_run_cases [OF s] by blast
  obtain es where "trace (snd (pyqt_imports (switched w))) = trace (switched w) @ es"
    using only_logs_pyqt_imports unfolding only_logs_def by blast
  then have "trace (snd (import_qt w)) =
      [Import ''os'', Store ''os'', Store ''QT_API_PYQT'', Store ''QT_API_PYSIDE'',
       EnvGet ''QT_API'', Store ''QT_API'', Import ''sip'', Store ''sip'',
       SetApi ''QString'' 2, SetApi ''QVariant'' 2] @ es"
    by (simp add: run switched_def started_def)
  moreover have "sip_api (snd (import_qt w)) = (sip_api w)(''QString'' \<mapsto> 2, ''QVariant'' \<mapsto> 2)"
    using keeps_pyqt_imports by (simp add: run keeps_def switched_def)
  ultimately show ?thesis
    using True by blast
next
  case False
  then show ?thesis
    using pyqt_run_cases [OF s] by (auto simp: started_def)
qed

lemma pyqt_host_run: "import_qt pyqt_host = (Inr (), pyqt_done pyqt_host (Obj 1) (Obj 2))"
  by (rule pyqt_run_ok) (simp_all add: pyqt_host_def selected_def QT_API_PYQT_def sip_ready_def)

lemma bare_host_run:
  "import_qt bare_host = (Inl (ImportError ''No module named sip''), started bare_host)"
proof -
  have "selected bare_host = ''pyqt''"
    by (simp add: selected_def bare_host_def QT_API_PYQT_def)
  moreover have "import_module ''sip'' (started bare_host)
      = (Inl (ImportError (''No module named '' @ ''sip'')), started bare_host)"
    by (rule import_module_fail) (simp add: started_simps bare_host_def)
  ultimately show ?thesis
    by (simp add: import_qt_eq pyqt_branch_split seq_def)
qed

section \<open>PyQt selected\<close>

text \<open>
  Claim C2, as amended. In every run with \<open>QT_API\<close> unset or \<open>pyqt\<close> the resolved
  identity is \<open>pyqt\<close>. When moreover sip can be imported and has no other version of
  the two APIs registered, PyQt4 and its modules QtCore, QtGui and QtSvg can be imported,
  and QtCore has the attributes \<open>pyqtSignal\<close> and \<open>pyqtSlot\<close>, the run completes, the
  three names are bound to the modules of PyQt4, and on QtCore \<open>Signal\<close> is the object
  \<open>pyqtSignal\<close> and \<open>Slot\<close> is the object \<open>pyqtSlot\<close>.
\<close>

theorem pyqt_selected:
  assumes "environ w ''QT_API'' = None \<or> environ w ''QT_API'' = Some ''pyqt''"
  shows "globals (snd (import_qt w)) ''QT_API'' = Some (Str ''pyqt'')
    \<and> (installed w ''sip''
        \<and> (sip_api w ''QString'' = None \<or> sip_api w ''QString'' = Some 2)
        \<and> (sip_api w ''QVariant'' = None \<or> sip_api w ''QVariant'' = Some 2)
        \<and> installed w ''PyQt4'' \<and> installed w ''PyQt4.QtCore''
        \<and> installed w ''PyQt4.QtGui'' \<and> installed w ''PyQt4.QtSvg''
        \<and> attrs w ''PyQt4.QtCore'' ''pyqtSignal'' = Some sig
        \<and> attrs w ''PyQt4.QtCore'' ''pyqtSlot'' = Some slot
      \<longrightarrow> fst (import_qt w) = Inr ()
        \<and> globals (snd (import_qt w)) ''QtCore'' = Some (Module ''PyQt4.QtCore'')
        \<and> globals (snd (import_qt w)) ''QtGui'' = Some (Module ''PyQt4.QtGui'')
        \<and> globals (snd (import_qt w)) ''QtSvg'' = Some (Module ''PyQt4.QtSvg'')
        \<and> attrs (snd (import_qt w)) ''PyQt4.QtCore'' ''Signal'' = Some sig
        \<and> attrs (snd (import_qt w)) ''PyQt4.QtCore'' ''pyqtSignal'' = Some sig
        \<and> attrs (snd (import_qt w)) ''PyQt4.QtCore'' ''Slot'' = Some slot
        \<and> attrs (snd (import_qt w)) ''PyQt4.QtCore'' ''pyqtSlot'' = Some slot)"
proof -
  have s: "selected w = ''pyqt''"
    using assms by (rule selected_pyqt)
  have "globals (snd (import_qt w)) ''QT_API'' = Some (Str ''pyqt'')"
    by (simp add: import_qt_globals started_def s)
  moreover have "import_qt w = (Inr (), pyqt_done w sig slot)"
    if "sip_ready w" "installed w ''PyQt4''" "installed w ''PyQt4.QtCore''"
      "installed w ''PyQt4.QtGui''" "installed w ''PyQt4.QtSvg''"
      "attrs w ''PyQt4.QtCore'' ''pyqtSignal'' = Some sig"
      "attrs w ''PyQt4.QtCore'' ''pyqtSlot'' = Some slot"
    using s that by (rule pyqt_run_ok)
  ultimately show ?thesis
    by (auto simp: sip_ready_def pyqt_done_def)
qed

theorem pyqt_selected_witness:
  "environ pyqt_host ''QT_API'' = None
   \<and> installed pyqt_host ''sip'' \<and> sip_api pyqt_host ''QString'' = None
   \<and> sip_api pyqt_host ''QVariant'' = None \<and> installed pyqt_host ''PyQt4''
   \<and> installed pyqt_host ''PyQt4.QtCore'' \<and> installed pyqt_host ''PyQt4.QtGui''
   \<and> installed pyqt_host ''PyQt4.QtSvg''
   \<and> attrs pyqt_host ''PyQt4.QtCore'' ''pyqtSignal'' = Some (Obj 1)
   \<and> attrs pyqt_host ''PyQt4.QtCore'' ''pyqtSlot'' = Some (Obj 2)
   \<and> fst (import_qt pyqt_host) = Inr ()
   \<and> globals (snd (import_qt pyqt_host)) ''QT_API'' = Some (Str ''pyqt'')
   \<and> globals (snd (import_qt pyqt_host)) ''QtCore'' = Some (Module ''PyQt4.QtCore'')
   \<and> globals (snd (import_qt pyqt_host)) ''QtGui'' = Some (Module ''PyQt4.QtGui'')
   \<and> globals (snd (import_qt pyqt_host)) ''QtSvg'' = Some (Module ''PyQt4.QtSvg'')
   \<and> attrs (snd (import_qt pyqt_host)) ''PyQt4.QtCore'' ''Signal'' = Some (Obj 1)
   \<and> attrs (snd (import_qt pyqt_host)) ''PyQt4.QtCore'' ''pyqtSignal'' = Some (Obj 1)
   \<and> attrs (snd (import_qt pyqt_host)) ''PyQt4.QtCore'' ''Slot'' = Some (Obj 2)
   \<and> attrs (snd (import_qt pyqt_host)) ''PyQt4.QtCore'' ''pyqtSlot'' = Some (Obj 2)"
proof -
  have h: "environ pyqt_host ''QT_API'' = None"
    "installed pyqt_host ''sip''" "sip_api pyqt_host ''QString'' = None"
    "sip_api pyqt_host ''QVariant'' = None" "installed pyqt_host ''PyQt4''"
    "installed pyqt_host ''PyQt4.QtCore''" "installed pyqt_host ''PyQt4.QtGui''"
    "installed pyqt_host ''PyQt4.QtSvg''"
    "attrs pyqt_host ''PyQt4.QtCore'' ''pyqtSignal'' = Some (Obj 1)"
    "attrs pyqt_host ''PyQt4.QtCore'' ''pyqtSlot'' = Some (Obj 2)"
    by (simp_all add: pyqt_host_def)
  show ?thesis
    using h pyqt_selected [of pyqt_host "Obj 1" "Obj 2"] by simp
qed

text \<open>
  The claim as stated fails on a host where the libraries are missing: with \<open>QT_API\<close>
  unset and neither sip nor PyQt4 installed, \<open>import sip\<close> raises ImportError, no
  handle is bound and QtCore gets no alias.
\<close>

theorem pyqt_missing_library:
  "environ bare_host ''QT_API'' = None
   \<and> fst (import_qt bare_host) = Inl (ImportError ''No module named sip'')
   \<and> globals (snd (import_qt bare_host)) ''QtCore'' = None
   \<and> globals (snd (import_qt bare_host)) ''QtGui'' = None
   \<and> globals (snd (import_qt bare_host)) ''QtSvg'' = None
   \<and> attrs (snd (import_qt bare_host)) ''PyQt4.QtCore'' ''Signal'' = None"
  by (simp add: bare_host_run started_def) (simp add: bare_host_def)

text \<open>
  Claim C4, as amended. In every run with \<open>QT_API\<close> unset or \<open>pyqt\<close>, the import of
  PyQt4 and of each of its modules QtCore, QtGui and QtSvg, if it happens at all, comes
  after \<open>setapi('QString', 2)\<close> and after \<open>setapi('QVariant', 2)\<close>, and the first of
  these calls comes before the second. Both calls are performed exactly when sip can be
  imported and has no other version of the two APIs registered; then both APIs are at
  version 2 when the run ends. In particular both are performed in every run that
  completes.
\<close>

theorem mode_switches_precede_imports:
  assumes "environ w ''QT_API'' = None \<or> environ w ''QT_API'' = Some ''pyqt''"
  shows "(\<forall>m \<in> {''PyQt4'', ''PyQt4.QtCore'', ''PyQt4.QtGui'', ''PyQt4.QtSvg''}.
            before (SetApi ''QString'' 2) (Import m) (trace (snd (import_qt w)))
            \<and> before (SetApi ''QVariant'' 2) (Import m) (trace (snd (import_qt w))))
    \<and> before (SetApi ''QString'' 2) (SetApi ''QVariant'' 2) (trace (snd (import_qt w)))
    \<and> (SetApi ''QString'' 2 \<in> set (trace (snd (import_qt w)))
          \<and> SetApi ''QVariant'' 2 \<in> set (trace (snd (import_qt w)))
        \<longleftrightarrow> sip_ready w)
    \<and> (sip_ready w \<longrightarrow> sip_api (snd (import_qt w)) ''QString'' = Some 2
          \<and> sip_api (snd (import_qt w)) ''QVariant'' = Some 2)
    \<and> (fst (import_qt w) = Inr () \<longrightarrow> sip_ready w)"
proof -
  let ?t = "trace (snd (import_qt w))"
  let ?pre = "[Import ''os'', Store ''os'', Store ''QT_API_PYQT'', Store ''QT_API_PYSIDE'',
               EnvGet ''QT_API'', Store ''QT_API'', Import ''sip'', Store ''sip'',
               SetApi ''QString'' 2, SetApi ''QVariant'' 2]"
  have s: "selected w = ''pyqt''"
    using assms by (rule selected_pyqt)
  show ?thesis
  proof (cases "sip_ready w")
    case True
    then obtain es where t: "?t = ?pre @ es"
      and api: "sip_api (snd (import_qt w)) = (sip_api w)(''QString'' \<mapsto> 2, ''QVariant'' \<mapsto> 2)"
      using pyqt_trace [OF s] by blast
    have imp: "before (SetApi ''QString'' 2) (Import m) ?t
               \<and> before (SetApi ''QVariant'' 2) (Import m) ?t"
      if "m \<in> {''PyQt4'', ''PyQt4.QtCore'', ''PyQt4.QtGui'', ''PyQt4.QtSvg''}" for m
      unfolding t using that by (intro conjI before_append) auto
    have ord: "before (SetApi ''QString'' 2) (SetApi ''QVariant'' 2) ?t"
      unfolding t by (simp add: before_def)
    have both: "SetApi ''QString'' 2 \<in> set ?t \<and> SetApi ''QVariant'' 2 \<in> set ?t"
      unfolding t by simp
    show ?thesis
      using True imp ord both api by simp
  next
    case False
    then obtain e es where e: "fst (import_qt w) = Inl e"
      and t: "?t = [Import ''os'', Store ''os'', Store ''QT_API_PYQT'', Store ''QT_API_PYSIDE'',
                    EnvGet ''QT_API'', Store ''QT_API''] @ es"
      and es: "es = [] \<or> es = [Import ''sip'', Store ''sip'']
                 \<or> es = [Import ''sip'', Store ''sip'', SetApi ''QString'' 2]"
      using pyqt_trace [OF s] by blast
    have imp: "before (SetApi ''QString'' 2) (Import m) ?t
               \<and> before (SetApi ''QVariant'' 2) (Import m) ?t"
      if "m \<in> {''PyQt4'', ''PyQt4.QtCore'', ''PyQt4.QtGui'', ''PyQt4.QtSvg''}" for m
      unfolding t using that es by (intro conjI before_absent) auto
    have ord: "before (SetApi ''QString'' 2) (SetApi ''QVariant'' 2) ?t"
      unfolding t using es by (intro before_absent) auto
    have both: "SetApi ''QVariant'' 2 \<notin> set ?t"
      unfolding t using es by auto
    show ?thesis
      using False imp ord both e by simp
  qed
qed

theorem mode_switches_precede_imports_witness:
  "environ pyqt_host ''QT_API'' = None \<and> sip_ready pyqt_host
   \<and> fst (import_qt pyqt_host) = Inr ()
   \<and> Import ''PyQt4'' \<in> set (trace (snd (import_qt pyqt_host)))
   \<and> Import ''PyQt4.QtCore'' \<in> set (trace (snd (import_qt pyqt_host)))
   \<and> before (SetApi ''QString'' 2) (Import ''PyQt4'') (trace (snd (import_qt pyqt_host)))
   \<and> before (SetApi ''QVariant'' 2) (Import ''PyQt4'') (trace (snd (import_qt pyqt_host)))
   \<and> before (SetApi ''QString'' 2) (Import ''PyQt4.QtCore'') (trace (snd (import_qt pyqt_host)))
   \<and> before (SetApi ''QVariant'' 2) (Import ''PyQt4.QtCore'') (trace (snd (import_qt pyqt_host)))
   \<and> SetApi ''QString'' 2 \<in> set (trace (snd (import_qt pyqt_host)))
   \<and> SetApi ''QVariant'' 2 \<in> set (trace (snd (import_qt pyqt_host)))
   \<and> sip_api (snd (import_qt pyqt_host)) ''QString'' = Some 2
   \<and> sip_api (snd (import_qt pyqt_host)) ''QVariant'' = Some 2"
proof -
  have h: "environ pyqt_host ''QT_API'' = None" "sip_ready pyqt_host"
    by (simp_all add: pyqt_host_def sip_ready_def)
  have r: "fst (import_qt pyqt_host) = Inr ()"
    "Import ''PyQt4'' \<in> set (trace (snd (import_qt pyqt_host)))"
    "Import ''PyQt4.QtCore'' \<in> set (trace (snd (import_qt pyqt_host)))"
    by (simp_all add: pyqt_host_run pyqt_done_def)
  show ?thesis
    using h r mode_switches_precede_imports [of pyqt_host] by simp
qed

text \<open>
  The claim as stated fails on a host without sip: the run selects PyQt, \<open>import sip\<close>
  raises ImportError, and neither call of \<open>setapi\<close> is performed.
\<close>

theorem no_mode_switch_without_sip:
  "environ bare_host ''QT_API'' = None
   \<and> globals (snd (import_qt bare_host)) ''QT_API'' = Some (Str ''pyqt'')
   \<and> fst (import_qt bare_host) = Inl (ImportError ''No module named sip'')
   \<and> SetApi ''QString'' 2 \<notin> set (trace (snd (import_qt bare_host)))
   \<and> SetApi ''QVariant'' 2 \<notin> set (trace (snd (import_qt bare_host)))
   \<and> sip_api (snd (import_qt bare_host)) ''QString'' = None
   \<and> sip_api (snd (import_qt bare_host)) ''QVariant'' = None"
  by (simp add: bare_host_run started_def selected_def) (simp add: bare_host_def QT_API_PYQT_def)

section \<open>PySide selected\<close>

lemma pyside_run:
  "environ w ''QT_API'' = Some ''pyside'' \<Longrightarrow> import_qt w = pyside_branch (started w)"
  by (simp add: import_qt_eq selected_def)

text \<open>
  Claim C3, as amended. In every run with \<open>QT_API\<close> equal to \<open>pyside\<close> the resolved
  identity is \<open>pyside\<close>, no call of \<open>setapi\<close> and no assignment to an attribute of a
  module is performed, and the API versions registered with sip and the attributes of
  every module, those of PySide's QtCore among them, are what they were. When PySide and
  its modules QtCore, QtGui and QtSvg can be imported, the run completes and the three
  names are bound to the modules of PySide.
\<close>

theorem pyside_selected:
  assumes "environ w ''QT_API'' = Some ''pyside''"
  shows "globals (snd (import_qt w)) ''QT_API'' = Some (Str ''pyside'')
    \<and> (\<forall>a n. SetApi a n \<notin> set (trace (snd (import_qt w))))
    \<and> (\<forall>m a. SetAttr m a \<notin> set (trace (snd (import_qt w))))
    \<and> sip_api (snd (import_qt w)) = sip_api w
    \<and> attrs (snd (import_qt w)) = attrs w
    \<and> (installed w ''PySide'' \<and> installed w ''PySide.QtCore''
        \<and> installed w ''PySide.QtGui'' \<and> installed w ''PySide.QtSvg''
      \<longrightarrow> fst (import_qt w) = Inr ()
        \<and> globals (snd (import_qt w)) ''QtCore'' = Some (Module ''PySide.QtCore'')
        \<and> globals (snd (import_qt w)) ''QtGui'' = Some (Module ''PySide.QtGui'')
        \<and> globals (snd (import_qt w)) ''QtSvg'' = Some (Module ''PySide.QtSvg''))"
proof -
  let ?A = "\<lambda>e. (\<forall>a n. e \<noteq> SetApi a n) \<and> (\<forall>m a. e \<noteq> SetAttr m a)"
  have run: "import_qt w = pyside_branch (started w)"
    using assms by (rule pyside_run)
  have 1: "globals (snd (import_qt w)) ''QT_API'' = Some (Str ''pyside'')"
    using assms by (simp add: import_qt_globals started_def selected_def)
  have "only_logs ?A pyside_branch"
    by (intro only_logs_pyside_branch) simp_all
  then obtain es where "trace (snd (import_qt w)) = trace (started w) @ es" "list_all ?A es"
    unfolding only_logs_def run by blast
  then have 2: "\<forall>e \<in> set (trace (snd (import_qt w))). ?A e"
    by (auto simp: started_def list_all_iff)
  have 3: "sip_api (snd (import_qt w)) = sip_api w" "attrs (snd (import_qt w)) = attrs w"
    using keeps_pyside_branch(3,4) by (simp_all add: run keeps_def started_simps)
  have 4: "import_qt w =
      (Inr (), (started w)\<lparr>globals := (globals (started w))(''QtCore'' \<mapsto> Module ''PySide.QtCore'',
                   ''QtGui'' \<mapsto> Module ''PySide.QtGui'', ''QtSvg'' \<mapsto> Module ''PySide.QtSvg''),
         trace := trace (started w) @ [Import ''PySide'', Import ''PySide.QtCore'',
                    Import ''PySide.QtGui'', Import ''PySide.QtSvg'',
                    Store ''QtCore'', Store ''QtGui'', Store ''QtSvg'']\<rparr>)"
    if "installed w ''PySide''" "installed w ''PySide.QtCore''"
      "installed w ''PySide.QtGui''" "installed w ''PySide.QtSvg''"
    using that from_import_ok [of "started w" "''PySide''" "''QtCore''" "''QtGui''" "''QtSvg''"]
    by (simp add: run pyside_branch_def started_simps submodule_def)
  show ?thesis
    using 1 2 3 4 by auto
qed

theorem pyside_selected_witness:
  "environ pyside_host ''QT_API'' = Some ''pyside''
   \<and> installed pyside_host ''PySide'' \<and> installed pyside_host ''PySide.QtCore''
   \<and> installed pyside_host ''PySide.QtGui'' \<and> installed pyside_host ''PySide.QtSvg''
   \<and> fst (import_qt pyside_host) = Inr ()
   \<and> globals (snd (import_qt pyside_host)) ''QT_API'' = Some (Str ''pyside'')
   \<and> globals (snd (import_qt pyside_host)) ''QtCore'' = Some (Module ''PySide.QtCore'')
   \<and> globals (snd (import_qt pyside_host)) ''QtGui'' = Some (Module ''PySide.QtGui'')
   \<and> globals (snd (import_qt pyside_host)) ''QtSvg'' = Some (Module ''PySide.QtSvg'')
   \<and> SetApi ''QString'' 2 \<notin> set (trace (snd (import_qt pyside_host)))
   \<and> SetAttr ''PySide.QtCore'' ''Signal'' \<notin> set (trace (snd (import_qt pyside_host)))
   \<and> sip_api (snd (import_qt pyside_host)) ''QString'' = None
   \<and> attrs (snd (import_qt pyside_host)) ''PySide.QtCore'' ''Signal'' = Some (Obj 1)"
proof -
  have h: "environ pyside_host ''QT_API'' = Some ''pyside''"
    "installed pyside_host ''PySide''" "installed pyside_host ''PySide.QtCore''"
    "installed pyside_host ''PySide.QtGui''" "installed pyside_host ''PySide.QtSvg''"
    "sip_api pyside_host ''QString'' = None"
    "attrs pyside_host ''PySide.QtCore'' ''Signal'' = Some (Obj 1)"
    by (simp_all add: pyside_host_def)
  show ?thesis
    using h pyside_selected [of pyside_host] by simp
qed

text \<open>
  The claim as stated fails on a host without PySide: the import raises ImportError and
  no handle is bound.
\<close>

theorem pyside_missing_library:
  "environ (bare_host\<lparr>environ := [''QT_API'' \<mapsto> ''pyside'']\<rparr>) ''QT_API'' = Some ''pyside''
   \<and> fst (import_qt (bare_host\<lparr>environ := [''QT_API'' \<mapsto> ''pyside'']\<rparr>))
       = Inl (ImportError ''No module named PySide'')
   \<and> globals (snd (import_qt (bare_host\<lparr>environ := [''QT_API'' \<mapsto> ''pyside'']\<rparr>))) ''QtCore'' = None
   \<and> globals (snd (import_qt (bare_host\<lparr>environ := [''QT_API'' \<mapsto> ''pyside'']\<rparr>))) ''QtGui'' = None
   \<and> globals (snd (import_qt (bare_host\<lparr>environ := [''QT_API'' \<mapsto> ''pyside'']\<rparr>))) ''QtSvg'' = None"
  by (simp add: pyside_run pyside_branch_def from_import_def started_def)
     (simp add: bare_host_def)

end
